theory Spec2Isabelle
  imports Complex_Main
begin

section \<open>Data model of the habit store (src/worker.ts)\<close>

text \<open>
  The records follow the TypeScript interfaces of \<^verbatim>\<open>src/worker.ts\<close>. Field names are
  global in a theory, so a field that occurs in several interfaces carries a suffix:
  \<open>_h\<close> (Habit), \<open>_l\<close> (HabitLog), \<open>_s\<close> (an entry of the stats array), \<open>_b\<close> (a request body).

  Conventions of the embedding:
  \<^item> a JavaScript \<^verbatim>\<open>number\<close> is a rational: finite values with exact arithmetic; rounding,
    infinities and NaN of IEEE doubles are not represented;
  \<^item> an ISO time string (\<^verbatim>\<open>createdAt\<close>, \<^verbatim>\<open>timestamp\<close>) is represented by the instant it
    denotes, in milliseconds since the epoch: \<^verbatim>\<open>new Date().toISOString()\<close> writes the string of
    the current instant and \<^verbatim>\<open>new Date(s).getTime()\<close> reads the same instant back;
  \<^item> the string-literal unions \<^verbatim>\<open>"daily" | "weekly"\<close> and \<^verbatim>\<open>"day" | "week"\<close> are datatypes;
  \<^item> values are typed as the interfaces and the casts of the source declare them; a JSON
    document outside these types (a \<^verbatim>\<open>null\<close> body, a property of another type) is not
    represented.
\<close>

datatype HabitFrequency = Daily | Weekly

datatype Period = Day | Week

record Habit =
  id_h :: string
  name_h :: string
  frequency_h :: HabitFrequency
  targetPerPeriod_h :: rat
  period_h :: Period
  createdAt :: int

record HabitLog =
  id_l :: string
  habitId_l :: string
  timestamp :: int

record UserState =
  habits :: "Habit list"
  logs :: "HabitLog list"

definition defaultState :: UserState where
  "defaultState = \<lparr>habits = [], logs = []\<rparr>"

section \<open>Stats engine\<close>

record Stat =
  habitId_s :: string
  name_s :: string
  completedLast7Days :: nat
  targetPerWeek :: rat
  completionRate :: rat

text \<open>
  \<^verbatim>\<open>computeStats\<close> reads the clock once (\<^verbatim>\<open>Date.now()\<close>); the reading is the first argument.
\<close>

definition computeStats :: "int \<Rightarrow> UserState \<Rightarrow> Stat list" where
  "computeStats now state =
     (let weekAgo = now - 7 * 24 * 60 * 60 * 1000 in
      map (\<lambda>habit.
        let completedLast7Days' =
              length (filter (\<lambda>log. habitId_l log = id_h habit \<and> timestamp log \<ge> weekAgo)
                        (logs state));
            targetPerWeek' =
              (if period_h habit = Week then targetPerPeriod_h habit
               else targetPerPeriod_h habit * 7);
            completionRate' =
              (if targetPerWeek' > 0
               then min 1 (of_nat completedLast7Days' / targetPerWeek')
               else 0)
        in \<lparr>habitId_s = id_h habit, name_s = name_h habit,
            completedLast7Days = completedLast7Days',
            targetPerWeek = targetPerWeek',
            completionRate = completionRate'\<rparr>)
      (habits state))"

section \<open>Requests, responses and the platform\<close>

text \<open>
  A request body after \<^verbatim>\<open>request.json()\<close>, at the types of the three casts in \<^verbatim>\<open>fetch\<close>:
  every property is optional (\<open>None\<close> is \<^verbatim>\<open>undefined\<close>).
\<close>

record Body =
  name_b :: "string option"
  frequency_b :: "HabitFrequency option"
  targetPerPeriod_b :: "rat option"
  period_b :: "Period option"
  habitId_b :: "string option"
  message_b :: "string option"

text \<open>\<open>json_body = None\<close>: the body text is not valid JSON, \<^verbatim>\<open>request.json()\<close> rejects.\<close>

record Request =
  method_r :: string
  path :: string
  json_body :: "Body option"

text \<open>
  The prompt sent to the text-generation service is a fixed template around two computed
  parts, which are what the model keeps: the habit summary (the placeholder sentence when
  there are no habits, otherwise one block per entry of the stats) and the trimmed message.
\<close>

datatype Summary = NoHabitsYet | StatsSummary "Stat list"

record Prompt =
  habitsSummary :: Summary
  userMessage :: string

datatype Content =
    Text string
  | StateJson UserState "Stat list"
  | HabitJson Habit UserState "Stat list"
  | LogJson HabitLog UserState "Stat list"
  | CoachJson string "Stat list"

record Response =
  status :: nat
  content :: Content

definition text_response :: "string \<Rightarrow> nat \<Rightarrow> Response" where
  "text_response s n = \<lparr>status = n, content = Text s\<rparr>"

definition json_response :: "Content \<Rightarrow> Response" where
  "json_response c = \<lparr>status = 200, content = c\<rparr>"

text \<open>
  What the platform answers during one request: the identifier \<^verbatim>\<open>crypto.randomUUID()\<close>
  returns, the clock read by \<^verbatim>\<open>new Date()\<close> and by \<^verbatim>\<open>Date.now()\<close>, whether each storage call
  succeeds (\<^verbatim>\<open>get\<close> in \<^verbatim>\<open>loadState\<close>, \<^verbatim>\<open>put\<close> in \<^verbatim>\<open>loadState\<close>, \<^verbatim>\<open>put\<close> in \<^verbatim>\<open>saveState\<close>; a call
  that fails throws and leaves the stored value as it was), and the reply of \<^verbatim>\<open>AI.run\<close>
  (\<open>None\<close>: the call rejects).
\<close>

record Env =
  randomUUID :: string
  Date_new :: int
  Date_now :: int
  get_ok :: bool
  put_fresh_ok :: bool
  put_save_ok :: bool
  AI_run :: "Prompt \<Rightarrow> string option"

datatype error = SyntaxError | StorageError | UpstreamError

text \<open>The value under the key \<^verbatim>\<open>"state"\<close> of the object's storage; \<open>None\<close>: nothing stored.\<close>

type_synonym storage = "UserState option"

definition loadState :: "Env \<Rightarrow> storage \<Rightarrow> (error + UserState) \<times> storage" where
  "loadState e stored =
     (if \<not> get_ok e then (Inl StorageError, stored)
      else case stored of
        Some s \<Rightarrow> (Inr s, stored)
      | None \<Rightarrow>
          (let fresh = defaultState in
           if put_fresh_ok e then (Inr fresh, Some fresh)
           else (Inl StorageError, stored)))"

definition saveState :: "Env \<Rightarrow> UserState \<Rightarrow> storage \<Rightarrow> (error + unit) \<times> storage" where
  "saveState e state stored =
     (if put_save_ok e then (Inr (), Some state) else (Inl StorageError, stored))"

subsection \<open>JavaScript truthiness and \<^verbatim>\<open>trim\<close>\<close>

definition truthy_string :: "string option \<Rightarrow> bool" where
  "truthy_string v = (case v of None \<Rightarrow> False | Some s \<Rightarrow> s \<noteq> [])"

definition truthy_number :: "rat option \<Rightarrow> bool" where
  "truthy_number v = (case v of None \<Rightarrow> False | Some n \<Rightarrow> n \<noteq> 0)"

text \<open>A value of a union of non-empty string literals is truthy; only \<^verbatim>\<open>undefined\<close> is not.\<close>

definition truthy_literal :: "'a option \<Rightarrow> bool" where
  "truthy_literal v = (case v of None \<Rightarrow> False | Some _ \<Rightarrow> True)"

text \<open>
  A \<open>char\<close> is a code unit below 256. Of the characters \<^verbatim>\<open>String.prototype.trim\<close> strips
  (WhiteSpace and LineTerminator), these are TAB, LF, VT, FF, CR, SP and NBSP.
\<close>

definition is_space :: "char \<Rightarrow> bool" where
  "is_space c = (of_char c \<in> {9, 10, 11, 12, 13, 32, 160 :: nat})"

definition trim :: "string \<Rightarrow> string" where
  "trim s = rev (dropWhile is_space (rev (dropWhile is_space s)))"

subsection \<open>\<^verbatim>\<open>HabitStore.fetch\<close>\<close>

text \<open>
  The body of the \<^verbatim>\<open>try\<close> block, one definition for each \<^verbatim>\<open>if\<close> block of the source. The
  result is the response or the exception thrown, the storage afterwards, and the prompts
  passed to \<^verbatim>\<open>AI.run\<close>, in order.
\<close>

type_synonym outcome = "(error + Response) \<times> storage \<times> Prompt list"

text \<open>\<^verbatim>\<open>GET /api/state\<close> (lines 105 to 109).\<close>

definition route_state :: "Env \<Rightarrow> Request \<Rightarrow> storage \<Rightarrow> outcome" where
  "route_state e request stored =
     (case loadState e stored of
        (Inl err, st) \<Rightarrow> (Inl err, st, [])
      | (Inr state, st) \<Rightarrow>
          (let stats = computeStats (Date_now e) state in
           (Inr (json_response (StateJson state stats)), st, [])))"

text \<open>
  \<^verbatim>\<open>POST /api/habits\<close> (lines 111 to 144). After the check the four properties are defined,
  so \<open>the\<close> reads their values.
\<close>

definition route_habits :: "Env \<Rightarrow> Request \<Rightarrow> storage \<Rightarrow> outcome" where
  "route_habits e request stored =
     (case json_body request of
        None \<Rightarrow> (Inl SyntaxError, stored, [])
      | Some body \<Rightarrow>
          if \<not> truthy_string (name_b body) \<or> \<not> truthy_literal (frequency_b body) \<or>
             \<not> truthy_number (targetPerPeriod_b body) \<or> \<not> truthy_literal (period_b body)
          then (Inr (text_response ''Invalid habit payload'' 400), stored, [])
          else
            (case loadState e stored of
               (Inl err, st) \<Rightarrow> (Inl err, st, [])
             | (Inr state, st) \<Rightarrow>
                 (let newHabit =
                        \<lparr>id_h = randomUUID e,
                         name_h = the (name_b body),
                         frequency_h = the (frequency_b body),
                         targetPerPeriod_h = the (targetPerPeriod_b body),
                         period_h = the (period_b body),
                         createdAt = Date_new e\<rparr>;
                      state' = state\<lparr>habits := habits state @ [newHabit]\<rparr>
                  in case saveState e state' st of
                       (Inl err, st') \<Rightarrow> (Inl err, st', [])
                     | (Inr _, st') \<Rightarrow>
                         (let stats = computeStats (Date_now e) state' in
                          (Inr (json_response (HabitJson newHabit state' stats)), st', [])))))"

text \<open>\<^verbatim>\<open>POST /api/log\<close> (lines 146 to 170).\<close>

definition route_log :: "Env \<Rightarrow> Request \<Rightarrow> storage \<Rightarrow> outcome" where
  "route_log e request stored =
     (case json_body request of
        None \<Rightarrow> (Inl SyntaxError, stored, [])
      | Some body \<Rightarrow>
          if \<not> truthy_string (habitId_b body)
          then (Inr (text_response ''Missing habitId'' 400), stored, [])
          else
            (case loadState e stored of
               (Inl err, st) \<Rightarrow> (Inl err, st, [])
             | (Inr state, st) \<Rightarrow>
                 (case find (\<lambda>h. id_h h = the (habitId_b body)) (habits state) of
                    None \<Rightarrow> (Inr (text_response ''Habit not found'' 404), st, [])
                  | Some habit \<Rightarrow>
                      (let log = \<lparr>id_l = randomUUID e,
                                  habitId_l = the (habitId_b body),
                                  timestamp = Date_new e\<rparr>;
                           state' = state\<lparr>logs := logs state @ [log]\<rparr>
                       in case saveState e state' st of
                            (Inl err, st') \<Rightarrow> (Inl err, st', [])
                          | (Inr _, st') \<Rightarrow>
                              (let stats = computeStats (Date_now e) state' in
                               (Inr (json_response (LogJson log state' stats)), st', []))))))"

text \<open>\<^verbatim>\<open>POST /api/coach\<close> (lines 172 to 226); \<^verbatim>\<open>body.message || ""\<close> is the first line.\<close>

definition route_coach :: "Env \<Rightarrow> Request \<Rightarrow> storage \<Rightarrow> outcome" where
  "route_coach e request stored =
     (case json_body request of
        None \<Rightarrow> (Inl SyntaxError, stored, [])
      | Some body \<Rightarrow>
          (let userMessage' =
                 trim (if truthy_string (message_b body) then the (message_b body) else [])
           in if userMessage' = []
              then (Inr (text_response ''Missing message'' 400), stored, [])
              else
                (case loadState e stored of
                   (Inl err, st) \<Rightarrow> (Inl err, st, [])
                 | (Inr state, st) \<Rightarrow>
                     (let stats = computeStats (Date_now e) state;
                          habitsSummary' =
                            (if length (habits state) = 0 then NoHabitsYet
                             else StatsSummary stats);
                          systemPrompt =
                            \<lparr>habitsSummary = habitsSummary', userMessage = userMessage'\<rparr>
                      in case AI_run e systemPrompt of
                           None \<Rightarrow> (Inl UpstreamError, st, [systemPrompt])
                         | Some aiResponse \<Rightarrow>
                             (Inr (json_response (CoachJson aiResponse stats)), st,
                              [systemPrompt])))))"

definition fetch_try :: "Env \<Rightarrow> Request \<Rightarrow> storage \<Rightarrow> outcome" where
  "fetch_try e request stored =
    (if method_r request = ''GET'' \<and> path request = ''/api/state'' then
       route_state e request stored
     else if method_r request = ''POST'' \<and> path request = ''/api/habits'' then
       route_habits e request stored
     else if method_r request = ''POST'' \<and> path request = ''/api/log'' then
       route_log e request stored
     else if method_r request = ''POST'' \<and> path request = ''/api/coach'' then
       route_coach e request stored
     else (Inr (text_response ''Not found'' 404), stored, []))"

text \<open>\<^verbatim>\<open>fetch\<close>: the \<^verbatim>\<open>catch\<close> turns every exception into the response 500.\<close>

definition fetch :: "Env \<Rightarrow> Request \<Rightarrow> storage \<Rightarrow> Response \<times> storage \<times> Prompt list" where
  "fetch e request stored =
     (case fetch_try e request stored of
        (Inr response, st, calls) \<Rightarrow> (response, st, calls)
      | (Inl err, st, calls) \<Rightarrow> (text_response ''Internal error'' 500, st, calls))"


section \<open>Observations on the storage\<close>

text \<open>
  The habit and log sequences that a reader of the storage sees: a storage that holds
  nothing yet is read as the empty state (\<^verbatim>\<open>loadState\<close> initializes it so).
\<close>

definition stored_habits :: "storage \<Rightarrow> Habit list" where
  "stored_habits stored = (case stored of None \<Rightarrow> [] | Some s \<Rightarrow> habits s)"

definition stored_logs :: "storage \<Rightarrow> HabitLog list" where
  "stored_logs stored = (case stored of None \<Rightarrow> [] | Some s \<Rightarrow> logs s)"

section \<open>The specification's wording, for comparison\<close>

text \<open>
  These three definitions follow the text of the specification, not the source: the
  window \<open>[now - 7*24h, now]\<close>, the count of a habit's logs inside it, and the four checks
  that the specification lists for a habit payload.
\<close>

definition spec_in_window :: "int \<Rightarrow> int \<Rightarrow> bool" where
  "spec_in_window now t = (now - 7 * 24 * 60 * 60 * 1000 \<le> t \<and> t \<le> now)"

definition spec_completedLast7Days :: "int \<Rightarrow> HabitLog list \<Rightarrow> Habit \<Rightarrow> nat" where
  "spec_completedLast7Days now ls habit =
     length (filter (\<lambda>log. habitId_l log = id_h habit \<and> spec_in_window now (timestamp log)) ls)"

definition spec_valid_payload :: "Body \<Rightarrow> bool" where
  "spec_valid_payload body =
     ((case name_b body of None \<Rightarrow> False | Some n \<Rightarrow> n \<noteq> []) \<and>
      (case targetPerPeriod_b body of None \<Rightarrow> False | Some t \<Rightarrow> 0 < t) \<and>
      frequency_b body \<in> {Some Daily, Some Weekly} \<and>
      period_b body \<in> {Some Day, Some Week})"

section \<open>Example data\<close>

definition env_ok :: Env where
  "env_ok = \<lparr>randomUUID = ''id-2'', Date_new = 1000, Date_now = 1000,
             get_ok = True, put_fresh_ok = True, put_save_ok = True,
             AI_run = (\<lambda>p. Some ''Keep going'')\<rparr>"

text \<open>Two clocks for the stats: exactly seven days after instant 0, and one millisecond later.\<close>

definition env_week :: Env where
  "env_week = env_ok\<lparr>Date_now := 604800000\<rparr>"

definition env_week_later :: Env where
  "env_week_later = env_ok\<lparr>Date_now := 604800001\<rparr>"

text \<open>A log request one millisecond after the seven days: both clock reads give that instant.\<close>

definition env_log_later :: Env where
  "env_log_later = env_ok\<lparr>Date_new := 604800001, Date_now := 604800001\<rparr>"

definition habit_read :: Habit where
  "habit_read = \<lparr>id_h = ''id-1'', name_h = ''Read'', frequency_h = Daily,
                 targetPerPeriod_h = 1, period_h = Day, createdAt = 0\<rparr>"

definition state_read :: UserState where
  "state_read = \<lparr>habits = [habit_read],
                 logs = [\<lparr>id_l = ''log-1'', habitId_l = ''id-1'', timestamp = 0\<rparr>]\<rparr>"

definition state_three :: UserState where
  "state_three = \<lparr>habits = [habit_read],
                  logs = [\<lparr>id_l = ''log-1'', habitId_l = ''id-1'', timestamp = 0\<rparr>,
                          \<lparr>id_l = ''log-2'', habitId_l = ''id-1'', timestamp = 1\<rparr>,
                          \<lparr>id_l = ''log-3'', habitId_l = ''id-1'', timestamp = 2\<rparr>]\<rparr>"

text \<open>A log stamped one millisecond after the clock reading 1000.\<close>

definition state_future :: UserState where
  "state_future = \<lparr>habits = [habit_read],
                   logs = [\<lparr>id_l = ''log-1'', habitId_l = ''id-1'', timestamp = 1001\<rparr>]\<rparr>"

definition body_empty :: Body where
  "body_empty = \<lparr>name_b = None, frequency_b = None, targetPerPeriod_b = None,
                 period_b = None, habitId_b = None, message_b = None\<rparr>"

definition body_blank_name :: Body where
  "body_blank_name = body_empty\<lparr>name_b := Some [], frequency_b := Some Daily,
                       targetPerPeriod_b := Some 1, period_b := Some Day\<rparr>"

definition body_negative_target :: Body where
  "body_negative_target = body_empty\<lparr>name_b := Some ''Read'', frequency_b := Some Daily,
                       targetPerPeriod_b := Some (- 1), period_b := Some Day\<rparr>"

definition get_request :: "string \<Rightarrow> Request" where
  "get_request p = \<lparr>method_r = ''GET'', path = p, json_body = None\<rparr>"

definition post_request :: "string \<Rightarrow> Body option \<Rightarrow> Request" where
  "post_request p b = \<lparr>method_r = ''POST'', path = p, json_body = b\<rparr>"

lemmas example_defs =
  env_ok_def env_week_def env_week_later_def env_log_later_def habit_read_def state_read_def state_three_def
  state_future_def body_empty_def body_blank_name_def body_negative_target_def
  get_request_def post_request_def

lemmas model_defs =
  fetch_def fetch_try_def route_state_def route_habits_def route_log_def route_coach_def
  loadState_def saveState_def defaultState_def computeStats_def text_response_def
  json_response_def truthy_string_def truthy_number_def truthy_literal_def
  stored_habits_def stored_logs_def Let_def


section \<open>Auxiliary facts\<close>

lemma fetch_try_state:
  "method_r request = ''GET'' \<Longrightarrow> path request = ''/api/state'' \<Longrightarrow>
   fetch_try e request stored = route_state e request stored"
  by (simp add: fetch_try_def)

lemma fetch_try_habits:
  "method_r request = ''POST'' \<Longrightarrow> path request = ''/api/habits'' \<Longrightarrow>
   fetch_try e request stored = route_habits e request stored"
  by (simp add: fetch_try_def)

lemma fetch_try_log:
  "method_r request = ''POST'' \<Longrightarrow> path request = ''/api/log'' \<Longrightarrow>
   fetch_try e request stored = route_log e request stored"
  by (simp add: fetch_try_def)

lemma fetch_try_coach:
  "method_r request = ''POST'' \<Longrightarrow> path request = ''/api/coach'' \<Longrightarrow>
   fetch_try e request stored = route_coach e request stored"
  by (simp add: fetch_try_def)

lemma status_text_response: "status (text_response s n) = n"
  by (simp add: text_response_def)

lemma status_json_response: "status (json_response c) = 200"
  by (simp add: json_response_def)

lemma fetch_storage:
  "fst (snd (fetch e request stored)) = fst (snd (fetch_try e request stored))"
  by (simp add: fetch_def split: prod.splits sum.splits)

text \<open>The check of \<^verbatim>\<open>POST /api/habits\<close>, property by property.\<close>

lemma payload_check:
  "(\<not> truthy_string (name_b body) \<or> \<not> truthy_literal (frequency_b body) \<or>
      \<not> truthy_number (targetPerPeriod_b body) \<or> \<not> truthy_literal (period_b body)) \<longleftrightarrow>
   (name_b body = None \<or> name_b body = Some [] \<or> frequency_b body = None \<or>
      targetPerPeriod_b body = None \<or> targetPerPeriod_b body = Some 0 \<or>
      period_b body = None)"
  by (auto simp add: truthy_string_def truthy_literal_def truthy_number_def
      split: option.splits)

lemma route_habits_accepted_status:
  assumes "json_body request = Some body"
    and "\<not> (\<not> truthy_string (name_b body) \<or> \<not> truthy_literal (frequency_b body) \<or>
      \<not> truthy_number (targetPerPeriod_b body) \<or> \<not> truthy_literal (period_b body))"
  shows "case route_habits e request stored of
           (Inl err, st, calls) \<Rightarrow> True
         | (Inr r, st, calls) \<Rightarrow> status r = 200"
  using assms
  by (auto simp add: route_habits_def loadState_def saveState_def Let_def status_json_response
      split: option.splits)

text \<open>The stats, entry by entry.\<close>

lemma computeStats_nth:
  assumes "i < length (habits state)"
  shows "computeStats now state ! i =
     (let habit = habits state ! i;
          c = length (filter (\<lambda>log. habitId_l log = id_h habit \<and>
                  timestamp log \<ge> now - 604800000) (logs state));
          t = (if period_h habit = Week then targetPerPeriod_h habit
               else targetPerPeriod_h habit * 7)
      in \<lparr>habitId_s = id_h habit, name_s = name_h habit, completedLast7Days = c,
          targetPerWeek = t,
          completionRate = (if t > 0 then min 1 (of_nat c / t) else 0)\<rparr>)"
  using assms by (simp add: computeStats_def Let_def)

lemma computeStats_completed:
  "map completedLast7Days (computeStats now state) =
     map (\<lambda>habit. length (filter (\<lambda>log. habitId_l log = id_h habit \<and>
            now - 604800000 \<le> timestamp log) (logs state))) (habits state)"
  by (simp add: computeStats_def Let_def comp_def)

lemma completed_after_append:
  assumes "i < length (habits state)"
  shows "completedLast7Days (computeStats now (state\<lparr>logs := logs state @ [entry]\<rparr>) ! i) =
         completedLast7Days (computeStats now state ! i) +
           (if habitId_l entry = id_h (habits state ! i) \<and> now - 604800000 \<le> timestamp entry
            then 1 else 0)"
  using assms by (simp add: computeStats_def Let_def)

text \<open>Loading never changes the sequences that the storage shows.\<close>

lemma loadState_frame:
  assumes "loadState e stored = (r, st)"
  shows "stored_habits st = stored_habits stored \<and> stored_logs st = stored_logs stored \<and>
         (\<forall>state. r = Inr state \<longrightarrow> st = Some state \<and> habits state = stored_habits stored \<and>
                     logs state = stored_logs stored)"
  using assms
  by (auto simp add: loadState_def stored_habits_def stored_logs_def defaultState_def Let_def
      split: if_splits option.splits)

lemma route_state_frame:
  "stored_habits (fst (snd (route_state e request stored))) = stored_habits stored \<and>
   stored_logs (fst (snd (route_state e request stored))) = stored_logs stored"
  by (auto simp add: route_state_def loadState_def stored_habits_def stored_logs_def
      defaultState_def Let_def split: option.splits)

lemma route_coach_frame:
  "stored_habits (fst (snd (route_coach e request stored))) = stored_habits stored \<and>
   stored_logs (fst (snd (route_coach e request stored))) = stored_logs stored"
  by (auto simp add: route_coach_def loadState_def stored_habits_def stored_logs_def
      defaultState_def Let_def split: option.splits)

lemma route_state_ok:
  assumes "route_state e request stored = (Inr r, st, calls)"
  shows "\<exists>state. st = Some state \<and> (stored = None \<or> stored = st) \<and>
           r = json_response (StateJson state (computeStats (Date_now e) state))"
  using assms
  by (auto simp add: route_state_def loadState_def Let_def split: if_splits option.splits)

lemma trim_blank:
  assumes "\<forall>c \<in> set m. is_space c"
  shows "trim m = []"
proof -
  from assms have "dropWhile is_space m = []" by (induction m) simp_all
  then show ?thesis by (simp only: trim_def rev.simps dropWhile.simps)
qed

lemma find_id_Some:
  assumes "hid \<in> id_h ` set hs"
  shows "\<exists>h. find (\<lambda>h. id_h h = hid) hs = Some h"
proof (cases "find (\<lambda>h. id_h h = hid) hs")
  case None
  with assms show ?thesis by (auto simp add: find_None_iff)
next
  case (Some h)
  then show ?thesis by simp
qed


section \<open>Creating a habit\<close>

text \<open>
  Claim C1, as the code has it. The check of \<^verbatim>\<open>POST /api/habits\<close> is a truthiness
  test of the four properties: the request is rejected with status 400, the storage left
  as it was and the text-generation service not called, exactly when \<^verbatim>\<open>name\<close> is
  missing or empty, \<^verbatim>\<open>frequency\<close> is missing, \<^verbatim>\<open>targetPerPeriod\<close> is missing or 0, or
  \<^verbatim>\<open>period\<close> is missing. Every other payload passes the check and is never answered
  with 400; the sign of \<^verbatim>\<open>targetPerPeriod\<close> is not looked at.
\<close>

theorem createHabit_rejects_falsy_payload:
  assumes "method_r request = ''POST''" and "path request = ''/api/habits''"
    and "json_body request = Some body"
  shows "if name_b body = None \<or> name_b body = Some [] \<or> frequency_b body = None \<or>
            targetPerPeriod_b body = None \<or> targetPerPeriod_b body = Some 0 \<or>
            period_b body = None
         then fetch e request stored = (text_response ''Invalid habit payload'' 400, stored, [])
         else status (fst (fetch e request stored)) \<noteq> 400"
proof (cases "name_b body = None \<or> name_b body = Some [] \<or> frequency_b body = None \<or>
      targetPerPeriod_b body = None \<or> targetPerPeriod_b body = Some 0 \<or>
      period_b body = None")
  case True
  then have "\<not> truthy_string (name_b body) \<or> \<not> truthy_literal (frequency_b body) \<or>
      \<not> truthy_number (targetPerPeriod_b body) \<or> \<not> truthy_literal (period_b body)"
    by (simp only: payload_check simp_thms)
  then have "route_habits e request stored =
      (Inr (text_response ''Invalid habit payload'' 400), stored, [])"
    using assms(3) by (simp add: route_habits_def)
  with True show ?thesis
    by (simp add: fetch_def fetch_try_habits [OF assms(1,2)])
next
  case False
  then have "\<not> (\<not> truthy_string (name_b body) \<or> \<not> truthy_literal (frequency_b body) \<or>
      \<not> truthy_number (targetPerPeriod_b body) \<or> \<not> truthy_literal (period_b body))"
    by (simp only: payload_check simp_thms)
  from route_habits_accepted_status [OF assms(3) this, of e stored]
  have "status (fst (fetch e request stored)) \<noteq> 400"
    by (auto simp add: fetch_def fetch_try_habits [OF assms(1,2)] status_text_response
        split: prod.splits sum.splits)
  with False show ?thesis by (simp only: if_False simp_thms)
qed

text \<open>
  The theorem at two payloads: an empty name is rejected and the stored state stays; a
  target of -1 is not rejected.
\<close>

theorem createHabit_rejects_falsy_payload_witness:
  "name_b body_blank_name = Some [] \<and>
   fetch env_ok (post_request ''/api/habits'' (Some body_blank_name)) (Some state_read) =
     (text_response ''Invalid habit payload'' 400, Some state_read, []) \<and>
   targetPerPeriod_b body_negative_target = Some (- 1) \<and>
   status (fst (fetch env_ok (post_request ''/api/habits'' (Some body_negative_target))
                  (Some state_read))) \<noteq> 400"
  using createHabit_rejects_falsy_payload
          [of "post_request ''/api/habits'' (Some body_blank_name)" body_blank_name
              env_ok "Some state_read"]
        createHabit_rejects_falsy_payload
          [of "post_request ''/api/habits'' (Some body_negative_target)" body_negative_target
              env_ok "Some state_read"]
  by (simp add: post_request_def body_blank_name_def body_negative_target_def body_empty_def)

text \<open>
  Claim C1 as the specification words it fails: the payload with \<^verbatim>\<open>targetPerPeriod\<close> -1
  does not pass the specification's four checks (its target is not positive), and the code
  answers 200 and stores the habit, on a storage that held nothing.
\<close>

theorem createHabit_accepts_negative_target:
  "\<not> spec_valid_payload body_negative_target \<and>
   status (fst (fetch env_ok (post_request ''/api/habits'' (Some body_negative_target)) None))
     = 200 \<and>
   stored_habits
     (fst (snd (fetch env_ok (post_request ''/api/habits'' (Some body_negative_target)) None)))
     = [\<lparr>id_h = ''id-2'', name_h = ''Read'', frequency_h = Daily,
         targetPerPeriod_h = - 1, period_h = Day, createdAt = 1000\<rparr>] \<and>
   stored_habits None = []"
  by (simp add: example_defs model_defs spec_valid_payload_def)

section \<open>Invalid JSON\<close>

text \<open>
  Claim C10. A POST request to one of the three operations (\<^verbatim>\<open>/api/habits\<close>,
  \<^verbatim>\<open>/api/log\<close>, \<^verbatim>\<open>/api/coach\<close>) whose body is not valid JSON is answered with the generic
  failure, status 500 and not 400; the storage is as before and the text-generation
  service is not called. (On any other path the body is never read.)
\<close>

theorem post_invalid_json_internal_error:
  assumes "method_r request = ''POST''"
    and "path request \<in> {''/api/habits'', ''/api/log'', ''/api/coach''}"
    and "json_body request = None"
  shows "fetch e request stored = (text_response ''Internal error'' 500, stored, [])"
proof -
  have "fetch_try e request stored = (Inl SyntaxError, stored, [])"
    using assms
    by (auto simp add: fetch_try_def route_habits_def route_log_def route_coach_def)
  then show ?thesis by (simp add: fetch_def)
qed

text \<open>The theorem at a log request without a JSON body, on a storage that holds a state.\<close>

theorem post_invalid_json_internal_error_witness:
  "json_body (post_request ''/api/log'' None) = None \<and>
   fetch env_ok (post_request ''/api/log'' None) (Some state_read) =
     (text_response ''Internal error'' 500, Some state_read, []) \<and>
   status (text_response ''Internal error'' 500) = 500"
  using post_invalid_json_internal_error
          [of "post_request ''/api/log'' None" env_ok "Some state_read"]
  by (simp add: post_request_def text_response_def)


section \<open>The stats\<close>

text \<open>
  Claim C2, as the code has it. For every clock reading, habit list and log list, the
  count of a habit is the number of logs with the habit's id whose timestamp is at or
  after \<open>now - 7*24h\<close>: the lower bound is inclusive and earlier logs are not counted, and
  there is no upper bound. Whenever no log is stamped after \<open>now\<close>, this is the count over
  the window \<open>[now - 7*24h, now]\<close> of the specification.
\<close>

theorem computeStats_counts_from_week_ago:
  "map completedLast7Days (computeStats now state) =
     map (\<lambda>habit. length (filter (\<lambda>log. habitId_l log = id_h habit \<and>
            now - 7 * 24 * 60 * 60 * 1000 \<le> timestamp log) (logs state))) (habits state)
   \<and> ((\<forall>log \<in> set (logs state). timestamp log \<le> now) \<longrightarrow>
        map completedLast7Days (computeStats now state) =
          map (spec_completedLast7Days now (logs state)) (habits state))"
proof -
  have "(\<forall>log \<in> set (logs state). timestamp log \<le> now) \<Longrightarrow>
     filter (\<lambda>log. habitId_l log = id_h habit \<and> now - 604800000 \<le> timestamp log) (logs state)
     = filter (\<lambda>log. habitId_l log = id_h habit \<and> spec_in_window now (timestamp log))
         (logs state)"
    for habit :: Habit
    by (rule filter_cong) (auto simp add: spec_in_window_def)
  then show ?thesis
    by (simp add: computeStats_completed spec_completedLast7Days_def)
qed

text \<open>
  The theorem at three logs stamped 0, 1 and 2 and the clock at 1000: none is later than
  the clock, and the count is 3 on both sides.
\<close>

theorem computeStats_counts_from_week_ago_witness:
  "map timestamp (logs state_three) = [0, 1, 2] \<and>
   map completedLast7Days (computeStats 1000 state_three) = [3] \<and>
   map (spec_completedLast7Days 1000 (logs state_three)) (habits state_three) = [3]"
  using computeStats_counts_from_week_ago [of 1000 state_three]
  by (simp add: state_three_def habit_read_def spec_completedLast7Days_def spec_in_window_def)

text \<open>
  Claim C2 as the specification words it fails: with the clock at 1000, a log stamped
  1001 lies outside the window \<open>[now - 7*24h, now]\<close>, so the specification's count is 0,
  and the code counts it.
\<close>

theorem computeStats_counts_future_log:
  "\<not> spec_in_window 1000 1001 \<and>
   logs state_future = [\<lparr>id_l = ''log-1'', habitId_l = ''id-1'', timestamp = 1001\<rparr>] \<and>
   map completedLast7Days (computeStats 1000 state_future) = [1] \<and>
   map (spec_completedLast7Days 1000 (logs state_future)) (habits state_future) = [0]"
  by (simp add: example_defs model_defs spec_in_window_def spec_completedLast7Days_def)

text \<open>
  Claim C4. For the habit at any position of the habit list and its entry in the stats:
  the weekly target is the target itself for period \<open>week\<close> and seven times the target for
  period \<open>day\<close>; the rate is \<open>min 1 (completed / target)\<close> for a positive weekly target and
  0 otherwise; and the rate lies between 0 and 1. (Numbers are exact rationals here.)
\<close>

theorem computeStats_target_and_rate:
  assumes "i < length (habits state)"
  shows "let habit = habits state ! i; s = computeStats now state ! i in
     (period_h habit = Week \<longrightarrow> targetPerWeek s = targetPerPeriod_h habit) \<and>
     (period_h habit = Day \<longrightarrow> targetPerWeek s = targetPerPeriod_h habit * 7) \<and>
     (targetPerWeek s > 0 \<longrightarrow>
        completionRate s = min 1 (of_nat (completedLast7Days s) / targetPerWeek s)) \<and>
     (targetPerWeek s \<le> 0 \<longrightarrow> completionRate s = 0) \<and>
     0 \<le> completionRate s \<and> completionRate s \<le> 1"
  by (simp add: computeStats_nth [OF assms] Let_def)

text \<open>
  The theorem at the scenario of the specification: the habit Read, once per day, logged
  three times in the last seven days, has weekly target 7 and rate 3/7.
\<close>

theorem computeStats_target_and_rate_witness:
  "length (habits state_three) = 1 \<and>
   period_h (habits state_three ! 0) = Day \<and>
   targetPerWeek (computeStats 1000 state_three ! 0) = 7 \<and>
   completedLast7Days (computeStats 1000 state_three ! 0) = 3 \<and>
   completionRate (computeStats 1000 state_three ! 0) = 3 / 7 \<and>
   0 \<le> completionRate (computeStats 1000 state_three ! 0) \<and>
   completionRate (computeStats 1000 state_three ! 0) \<le> 1"
  using computeStats_target_and_rate [of 0 state_three 1000]
  by (simp add: state_three_def habit_read_def computeStats_def Let_def)


section \<open>Logging a completion\<close>

text \<open>
  Claim C3. For \<^verbatim>\<open>POST /api/log\<close> with a JSON body: a missing or empty \<^verbatim>\<open>habitId\<close> is
  answered with the validation error (status 400) and the storage is untouched; a
  non-empty \<^verbatim>\<open>habitId\<close> that is the id of no stored habit is answered, once the state has
  been loaded, with the not-found error (status 404), and the stored log sequence (and
  habit sequence) is as before.
\<close>

theorem logCompletion_rejections:
  assumes "method_r request = ''POST''" and "path request = ''/api/log''"
    and "json_body request = Some body"
  shows "((habitId_b body = None \<or> habitId_b body = Some []) \<longrightarrow>
            fetch e request stored = (text_response ''Missing habitId'' 400, stored, [])) \<and>
         (\<forall>hid. habitId_b body = Some hid \<and> hid \<noteq> [] \<and>
                hid \<notin> id_h ` set (stored_habits stored) \<and>
                get_ok e \<and> (stored = None \<longrightarrow> put_fresh_ok e) \<longrightarrow>
            fst (fetch e request stored) = text_response ''Habit not found'' 404 \<and>
            stored_logs (fst (snd (fetch e request stored))) = stored_logs stored \<and>
            stored_habits (fst (snd (fetch e request stored))) = stored_habits stored \<and>
            snd (snd (fetch e request stored)) = [])"
proof (intro conjI impI allI)
  assume "habitId_b body = None \<or> habitId_b body = Some []"
  then have "\<not> truthy_string (habitId_b body)"
    by (auto simp add: truthy_string_def)
  then have "route_log e request stored =
      (Inr (text_response ''Missing habitId'' 400), stored, [])"
    using assms(3) by (simp add: route_log_def)
  then show "fetch e request stored = (text_response ''Missing habitId'' 400, stored, [])"
    by (simp add: fetch_def fetch_try_log [OF assms(1,2)])
next
  fix hid
  assume h: "habitId_b body = Some hid \<and> hid \<noteq> [] \<and>
             hid \<notin> id_h ` set (stored_habits stored) \<and>
             get_ok e \<and> (stored = None \<longrightarrow> put_fresh_ok e)"
  obtain state where ld: "loadState e stored = (Inr state, Some state)"
    using h by (cases stored) (simp_all add: loadState_def)
  from loadState_frame [OF ld] have hs: "habits state = stored_habits stored"
    and ls: "logs state = stored_logs stored" by simp_all
  from h hs have "find (\<lambda>h. id_h h = hid) (habits state) = None"
    by (auto simp add: find_None_iff)
  with h ld assms(3) have "route_log e request stored =
      (Inr (text_response ''Habit not found'' 404), Some state, [])"
    by (simp add: route_log_def truthy_string_def)
  then have "fetch e request stored = (text_response ''Habit not found'' 404, Some state, [])"
    by (simp add: fetch_def fetch_try_log [OF assms(1,2)])
  with hs ls show "fst (fetch e request stored) = text_response ''Habit not found'' 404"
    and "stored_logs (fst (snd (fetch e request stored))) = stored_logs stored"
    and "stored_habits (fst (snd (fetch e request stored))) = stored_habits stored"
    and "snd (snd (fetch e request stored)) = []"
    by (simp_all add: stored_logs_def stored_habits_def)
qed

text \<open>
  The theorem at a body without \<^verbatim>\<open>habitId\<close> and at a body that names a habit which is
  not stored, both on a storage that holds one habit and one log.
\<close>

theorem logCompletion_rejections_witness:
  "habitId_b body_empty = None \<and>
   fetch env_ok (post_request ''/api/log'' (Some body_empty)) (Some state_read) =
     (text_response ''Missing habitId'' 400, Some state_read, []) \<and>
   map id_h (stored_habits (Some state_read)) = [''id-1''] \<and>
   fst (fetch env_ok (post_request ''/api/log'' (Some (body_empty\<lparr>habitId_b := Some ''id-9''\<rparr>)))
          (Some state_read)) = text_response ''Habit not found'' 404 \<and>
   stored_logs (fst (snd (fetch env_ok
          (post_request ''/api/log'' (Some (body_empty\<lparr>habitId_b := Some ''id-9''\<rparr>)))
          (Some state_read)))) = stored_logs (Some state_read)"
  using logCompletion_rejections
          [of "post_request ''/api/log'' (Some body_empty)" body_empty env_ok "Some state_read"]
        logCompletion_rejections
          [of "post_request ''/api/log'' (Some (body_empty\<lparr>habitId_b := Some ''id-9''\<rparr>))"
              "body_empty\<lparr>habitId_b := Some ''id-9''\<rparr>" env_ok "Some state_read"]
  by (simp add: post_request_def body_empty_def env_ok_def state_read_def habit_read_def
      stored_habits_def)

text \<open>
  Claim C5, as the code has it. For \<^verbatim>\<open>POST /api/log\<close> with the (non-empty) id of a stored
  habit, when the storage calls succeed: the response is 200 with the new log, the new
  state and its stats; the state stored afterwards is the state before with exactly the
  new log appended (the habits and the earlier logs are unchanged); and at any one clock
  reading whose window \<open>[now - 7*24h, now]\<close> contains the new log's timestamp, the count
  of each habit with that id, computed on the state after, is one more than the count
  computed on the state before at that same clock reading, and the count of every other
  habit is the same. Nothing is said of two counts computed at different clock readings.
\<close>

theorem logCompletion_appends_one_log:
  assumes "method_r request = ''POST''" and "path request = ''/api/log''"
    and "json_body request = Some body"
    and "habitId_b body = Some hid" and "hid \<noteq> []"
    and "stored = Some state" and "hid \<in> id_h ` set (habits state)"
    and "get_ok e" and "put_save_ok e"
  shows "fetch e request stored =
           (json_response
              (LogJson \<lparr>id_l = randomUUID e, habitId_l = hid, timestamp = Date_new e\<rparr>
                 (state\<lparr>logs := logs state @
                    [\<lparr>id_l = randomUUID e, habitId_l = hid, timestamp = Date_new e\<rparr>]\<rparr>)
                 (computeStats (Date_now e)
                    (state\<lparr>logs := logs state @
                       [\<lparr>id_l = randomUUID e, habitId_l = hid, timestamp = Date_new e\<rparr>]\<rparr>))),
            Some (state\<lparr>logs := logs state @
                    [\<lparr>id_l = randomUUID e, habitId_l = hid, timestamp = Date_new e\<rparr>]\<rparr>),
            []) \<and>
         (\<forall>now i. i < length (habits state) \<and> spec_in_window now (Date_new e) \<longrightarrow>
            completedLast7Days
              (computeStats now (state\<lparr>logs := logs state @
                  [\<lparr>id_l = randomUUID e, habitId_l = hid, timestamp = Date_new e\<rparr>]\<rparr>) ! i) =
            completedLast7Days (computeStats now state ! i) +
              (if id_h (habits state ! i) = hid then 1 else 0))"
proof (intro conjI allI impI)
  from find_id_Some [OF assms(7)] obtain h
    where "find (\<lambda>h. id_h h = hid) (habits state) = Some h" ..
  then have "route_log e request stored =
      (Inr (json_response
              (LogJson \<lparr>id_l = randomUUID e, habitId_l = hid, timestamp = Date_new e\<rparr>
                 (state\<lparr>logs := logs state @
                    [\<lparr>id_l = randomUUID e, habitId_l = hid, timestamp = Date_new e\<rparr>]\<rparr>)
                 (computeStats (Date_now e)
                    (state\<lparr>logs := logs state @
                       [\<lparr>id_l = randomUUID e, habitId_l = hid, timestamp = Date_new e\<rparr>]\<rparr>)))),
       Some (state\<lparr>logs := logs state @
                    [\<lparr>id_l = randomUUID e, habitId_l = hid, timestamp = Date_new e\<rparr>]\<rparr>),
       [])"
    using assms(3-6,8,9)
    by (simp add: route_log_def truthy_string_def loadState_def saveState_def Let_def)
  then show "fetch e request stored =
           (json_response
              (LogJson \<lparr>id_l = randomUUID e, habitId_l = hid, timestamp = Date_new e\<rparr>
                 (state\<lparr>logs := logs state @
                    [\<lparr>id_l = randomUUID e, habitId_l = hid, timestamp = Date_new e\<rparr>]\<rparr>)
                 (computeStats (Date_now e)
                    (state\<lparr>logs := logs state @
                       [\<lparr>id_l = randomUUID e, habitId_l = hid, timestamp = Date_new e\<rparr>]\<rparr>))),
            Some (state\<lparr>logs := logs state @
                    [\<lparr>id_l = randomUUID e, habitId_l = hid, timestamp = Date_new e\<rparr>]\<rparr>),
            [])"
    by (simp add: fetch_def fetch_try_log [OF assms(1,2)])
next
  fix now i
  assume a: "i < length (habits state) \<and> spec_in_window now (Date_new e)"
  then have "now - 604800000 \<le> Date_new e" by (simp add: spec_in_window_def)
  with a show "completedLast7Days
              (computeStats now (state\<lparr>logs := logs state @
                  [\<lparr>id_l = randomUUID e, habitId_l = hid, timestamp = Date_new e\<rparr>]\<rparr>) ! i) =
            completedLast7Days (computeStats now state ! i) +
              (if id_h (habits state ! i) = hid then 1 else 0)"
    by (auto simp add: completed_after_append)
qed

text \<open>
  The theorem at the stored habit \<open>id-1\<close> with one earlier log, the new log stamped 1000
  and the stats read at 1000: the stored logs become two and the count goes from 1 to 2.
\<close>

theorem logCompletion_appends_one_log_witness:
  "spec_in_window 1000 (Date_new env_ok) \<and>
   map id_h (habits state_read) = [''id-1''] \<and>
   fst (snd (fetch env_ok (post_request ''/api/log'' (Some (body_empty\<lparr>habitId_b := Some ''id-1''\<rparr>)))
               (Some state_read))) =
     Some (state_read\<lparr>logs := logs state_read @
             [\<lparr>id_l = ''id-2'', habitId_l = ''id-1'', timestamp = 1000\<rparr>]\<rparr>) \<and>
   completedLast7Days (computeStats 1000 state_read ! 0) = 1 \<and>
   completedLast7Days
     (computeStats 1000 (state_read\<lparr>logs := logs state_read @
             [\<lparr>id_l = ''id-2'', habitId_l = ''id-1'', timestamp = 1000\<rparr>]\<rparr>) ! 0) = 2"
proof -
  have "fetch env_ok (post_request ''/api/log'' (Some (body_empty\<lparr>habitId_b := Some ''id-1''\<rparr>)))
          (Some state_read) =
           (json_response
              (LogJson \<lparr>id_l = ''id-2'', habitId_l = ''id-1'', timestamp = 1000\<rparr>
                 (state_read\<lparr>logs := logs state_read @
                    [\<lparr>id_l = ''id-2'', habitId_l = ''id-1'', timestamp = 1000\<rparr>]\<rparr>)
                 (computeStats 1000
                    (state_read\<lparr>logs := logs state_read @
                       [\<lparr>id_l = ''id-2'', habitId_l = ''id-1'', timestamp = 1000\<rparr>]\<rparr>))),
            Some (state_read\<lparr>logs := logs state_read @
                    [\<lparr>id_l = ''id-2'', habitId_l = ''id-1'', timestamp = 1000\<rparr>]\<rparr>),
            []) \<and>
         (\<forall>now i. i < length (habits state_read) \<and> spec_in_window now 1000 \<longrightarrow>
            completedLast7Days
              (computeStats now (state_read\<lparr>logs := logs state_read @
                  [\<lparr>id_l = ''id-2'', habitId_l = ''id-1'', timestamp = 1000\<rparr>]\<rparr>) ! i) =
            completedLast7Days (computeStats now state_read ! i) +
              (if id_h (habits state_read ! i) = ''id-1'' then 1 else 0))"
    using logCompletion_appends_one_log
          [of "post_request ''/api/log'' (Some (body_empty\<lparr>habitId_b := Some ''id-1''\<rparr>))"
              "body_empty\<lparr>habitId_b := Some ''id-1''\<rparr>" "''id-1''" "Some state_read" state_read
              env_ok]
    by (simp add: post_request_def body_empty_def env_ok_def state_read_def habit_read_def)
  then have f: "fst (snd (fetch env_ok
        (post_request ''/api/log'' (Some (body_empty\<lparr>habitId_b := Some ''id-1''\<rparr>)))
        (Some state_read))) =
      Some (state_read\<lparr>logs := logs state_read @
             [\<lparr>id_l = ''id-2'', habitId_l = ''id-1'', timestamp = 1000\<rparr>]\<rparr>)"
    and c: "0 < length (habits state_read) \<and> spec_in_window 1000 1000 \<longrightarrow>
            completedLast7Days
              (computeStats 1000 (state_read\<lparr>logs := logs state_read @
                  [\<lparr>id_l = ''id-2'', habitId_l = ''id-1'', timestamp = 1000\<rparr>]\<rparr>) ! 0) =
            completedLast7Days (computeStats 1000 state_read ! 0) +
              (if id_h (habits state_read ! 0) = ''id-1'' then 1 else 0)"
    by simp_all
  have b: "completedLast7Days (computeStats 1000 state_read ! 0) = 1"
    by (simp add: computeStats_def state_read_def habit_read_def)
  have w: "spec_in_window 1000 (Date_new env_ok)"
    by (simp add: spec_in_window_def env_ok_def)
  have "0 < length (habits state_read) \<and> spec_in_window 1000 1000"
    by (simp add: spec_in_window_def state_read_def)
  with c b have "completedLast7Days
              (computeStats 1000 (state_read\<lparr>logs := logs state_read @
                  [\<lparr>id_l = ''id-2'', habitId_l = ''id-1'', timestamp = 1000\<rparr>]\<rparr>) ! 0) = 2"
    by (simp add: state_read_def habit_read_def)
  with f b w show ?thesis
    by (simp add: state_read_def habit_read_def)
qed


text \<open>
  Claim C5 as the specification words it fails: each report reads the clock itself. On a
  state with one log stamped 0, the stats read exactly seven days later report the count
  1 and leave the storage as it was. A completion logged one millisecond after that is
  stamped inside its own window and appended, and the count reported with it is 1 again,
  not 2, because the earlier log has left the window; a state request at that instant
  reports 1 as well.
\<close>

theorem logCompletion_count_not_one_greater:
  "fetch env_week (get_request ''/api/state'') (Some state_read) =
     (json_response (StateJson state_read
        [\<lparr>habitId_s = ''id-1'', name_s = ''Read'', completedLast7Days = 1,
          targetPerWeek = 7, completionRate = 1 / 7\<rparr>]), Some state_read, []) \<and>
   spec_in_window (Date_now env_log_later) (Date_new env_log_later) \<and>
   fetch env_log_later
       (post_request ''/api/log'' (Some (body_empty\<lparr>habitId_b := Some ''id-1''\<rparr>)))
       (Some state_read) =
     (json_response
        (LogJson \<lparr>id_l = ''id-2'', habitId_l = ''id-1'', timestamp = 604800001\<rparr>
           (state_read\<lparr>logs := logs state_read @
              [\<lparr>id_l = ''id-2'', habitId_l = ''id-1'', timestamp = 604800001\<rparr>]\<rparr>)
           [\<lparr>habitId_s = ''id-1'', name_s = ''Read'', completedLast7Days = 1,
             targetPerWeek = 7, completionRate = 1 / 7\<rparr>]),
      Some (state_read\<lparr>logs := logs state_read @
              [\<lparr>id_l = ''id-2'', habitId_l = ''id-1'', timestamp = 604800001\<rparr>]\<rparr>),
      []) \<and>
   fst (fetch env_week_later (get_request ''/api/state'')
          (Some (state_read\<lparr>logs := logs state_read @
              [\<lparr>id_l = ''id-2'', habitId_l = ''id-1'', timestamp = 604800001\<rparr>]\<rparr>))) =
     json_response
       (StateJson
          (state_read\<lparr>logs := logs state_read @
              [\<lparr>id_l = ''id-2'', habitId_l = ''id-1'', timestamp = 604800001\<rparr>]\<rparr>)
          [\<lparr>habitId_s = ''id-1'', name_s = ''Read'', completedLast7Days = 1,
            targetPerWeek = 7, completionRate = 1 / 7\<rparr>])"
  by (simp add: example_defs model_defs spec_in_window_def)

section \<open>The coach\<close>

text \<open>
  Claim C6. For \<^verbatim>\<open>POST /api/coach\<close> with a JSON body whose \<^verbatim>\<open>message\<close> is missing, empty
  or made of white space only, the response is the validation error (status 400), the
  storage is untouched, and the list of calls to the text-generation service is empty.
\<close>

theorem coach_blank_message_rejected:
  assumes "method_r request = ''POST''" and "path request = ''/api/coach''"
    and "json_body request = Some body"
    and "message_b body = None \<or> (\<exists>m. message_b body = Some m \<and> (\<forall>c \<in> set m. is_space c))"
  shows "fetch e request stored = (text_response ''Missing message'' 400, stored, [])"
proof -
  have "trim (if truthy_string (message_b body) then the (message_b body) else []) = []"
    using assms(4) by (auto simp add: trim_blank truthy_string_def)
  then have "route_coach e request stored =
      (Inr (text_response ''Missing message'' 400), stored, [])"
    using assms(3) by (simp add: route_coach_def)
  then show ?thesis
    by (simp add: fetch_def fetch_try_coach [OF assms(1,2)])
qed

text \<open>The theorem at a message of a space, a tab and a line feed, and at a missing message.\<close>

theorem coach_blank_message_rejected_witness:
  "is_space CHR '' '' \<and> is_space (CHR 0x09) \<and> is_space (CHR 0x0A) \<and>
   fetch env_ok
     (post_request ''/api/coach''
        (Some (body_empty\<lparr>message_b := Some [CHR '' '', CHR 0x09, CHR 0x0A]\<rparr>)))
     (Some state_read) = (text_response ''Missing message'' 400, Some state_read, []) \<and>
   message_b body_empty = None \<and>
   fetch env_ok (post_request ''/api/coach'' (Some body_empty)) None =
     (text_response ''Missing message'' 400, None, [])"
  using coach_blank_message_rejected
          [of "post_request ''/api/coach''
                 (Some (body_empty\<lparr>message_b := Some [CHR '' '', CHR 0x09, CHR 0x0A]\<rparr>))"
              "body_empty\<lparr>message_b := Some [CHR '' '', CHR 0x09, CHR 0x0A]\<rparr>"
              env_ok "Some state_read"]
        coach_blank_message_rejected
          [of "post_request ''/api/coach'' (Some body_empty)" body_empty env_ok None]
  by (simp add: post_request_def body_empty_def is_space_def)

section \<open>Reading does not write\<close>

text \<open>
  Claim C7. For every \<^verbatim>\<open>GET /api/state\<close> and every \<^verbatim>\<open>POST /api/coach\<close>, whatever the body,
  the platform's answers and the outcome, the habit sequence and the log sequence of the
  storage are the same after the call as before it. (A storage that holds nothing is read
  as the empty state; the first load writes that empty state.)
\<close>

theorem getState_coach_no_mutation:
  assumes "(method_r request = ''GET'' \<and> path request = ''/api/state'') \<or>
           (method_r request = ''POST'' \<and> path request = ''/api/coach'')"
  shows "stored_habits (fst (snd (fetch e request stored))) = stored_habits stored \<and>
         stored_logs (fst (snd (fetch e request stored))) = stored_logs stored"
  using assms route_state_frame [of e request stored] route_coach_frame [of e request stored]
  by (auto simp add: fetch_storage fetch_try_state fetch_try_coach)

text \<open>
  The theorem at a state request and at a coach request with a message, on a storage
  that holds one habit and one log.
\<close>

theorem getState_coach_no_mutation_witness:
  "stored_habits (fst (snd (fetch env_ok (get_request ''/api/state'') (Some state_read)))) =
     [habit_read] \<and>
   stored_logs (fst (snd (fetch env_ok (get_request ''/api/state'') (Some state_read)))) =
     [\<lparr>id_l = ''log-1'', habitId_l = ''id-1'', timestamp = 0\<rparr>] \<and>
   stored_habits (fst (snd (fetch env_ok
     (post_request ''/api/coach'' (Some (body_empty\<lparr>message_b := Some ''How am I doing?''\<rparr>)))
     (Some state_read)))) = [habit_read] \<and>
   stored_logs (fst (snd (fetch env_ok
     (post_request ''/api/coach'' (Some (body_empty\<lparr>message_b := Some ''How am I doing?''\<rparr>)))
     (Some state_read)))) = [\<lparr>id_l = ''log-1'', habitId_l = ''id-1'', timestamp = 0\<rparr>]"
  using getState_coach_no_mutation [of "get_request ''/api/state''" env_ok "Some state_read"]
        getState_coach_no_mutation
          [of "post_request ''/api/coach''
                 (Some (body_empty\<lparr>message_b := Some ''How am I doing?''\<rparr>))"
              env_ok "Some state_read"]
  by (simp add: get_request_def post_request_def stored_habits_def stored_logs_def
      state_read_def)

section \<open>Reading twice\<close>

text \<open>
  Claim C8, as the code has it. Two \<^verbatim>\<open>GET /api/state\<close> calls in a row, the second on the
  storage the first left, that both succeed and read the same clock value return the
  same state and the same stats, and the second leaves the storage as the first left it.
\<close>

theorem getState_idempotent_same_clock:
  assumes "method_r request = ''GET''" and "path request = ''/api/state''"
    and "fetch e1 request stored = (r1, st1, c1)"
    and "fetch e2 request st1 = (r2, st2, c2)"
    and "Date_now e2 = Date_now e1"
    and "status r1 = 200" and "status r2 = 200"
  shows "r2 = r1 \<and> st2 = st1"
proof -
  from assms(3,6) have "route_state e1 request stored = (Inr r1, st1, c1)"
    by (auto simp add: fetch_def fetch_try_state [OF assms(1,2)] status_text_response
        split: prod.splits sum.splits)
  from route_state_ok [OF this] obtain state where
    s1: "st1 = Some state" "r1 = json_response (StateJson state (computeStats (Date_now e1) state))"
    by blast
  from assms(4,7) have "route_state e2 request st1 = (Inr r2, st2, c2)"
    by (auto simp add: fetch_def fetch_try_state [OF assms(1,2)] status_text_response
        split: prod.splits sum.splits)
  from route_state_ok [OF this] s1(1) have
    "st2 = Some state" "r2 = json_response (StateJson state (computeStats (Date_now e2) state))"
    by auto
  with s1 assms(5) show ?thesis by simp
qed

text \<open>
  The theorem at a storage that holds one habit and one log stamped 0, with both calls
  reading the clock at 1000 and the second platform differing in everything else the
  request does not read: both calls report the count 1, the weekly target 7 and the rate
  1/7, and the storage stays.
\<close>

theorem getState_idempotent_same_clock_witness:
  "Date_now (env_ok\<lparr>randomUUID := ''id-3'', Date_new := 5\<rparr>) = Date_now env_ok \<and>
   fetch env_ok (get_request ''/api/state'') (Some state_read) =
     (json_response (StateJson state_read
        [\<lparr>habitId_s = ''id-1'', name_s = ''Read'', completedLast7Days = 1,
          targetPerWeek = 7, completionRate = 1 / 7\<rparr>]), Some state_read, []) \<and>
   fetch (env_ok\<lparr>randomUUID := ''id-3'', Date_new := 5\<rparr>) (get_request ''/api/state'')
       (Some state_read) =
     (json_response (StateJson state_read
        [\<lparr>habitId_s = ''id-1'', name_s = ''Read'', completedLast7Days = 1,
          targetPerWeek = 7, completionRate = 1 / 7\<rparr>]), Some state_read, [])"
proof -
  have a: "fetch env_ok (get_request ''/api/state'') (Some state_read) =
     (json_response (StateJson state_read
        [\<lparr>habitId_s = ''id-1'', name_s = ''Read'', completedLast7Days = 1,
          targetPerWeek = 7, completionRate = 1 / 7\<rparr>]), Some state_read, [])"
    by (simp add: example_defs model_defs)
  obtain r2 st2 c2 where b:
    "fetch (env_ok\<lparr>randomUUID := ''id-3'', Date_new := 5\<rparr>) (get_request ''/api/state'')
       (Some state_read) = (r2, st2, c2)"
    by (cases "fetch (env_ok\<lparr>randomUUID := ''id-3'', Date_new := 5\<rparr>)
       (get_request ''/api/state'') (Some state_read)") auto
  then have s2: "status r2 = 200" and c2: "c2 = []"
    by (auto simp add: fetch_def fetch_try_def route_state_def loadState_def json_response_def
        get_request_def env_ok_def Let_def)
  have "r2 = json_response (StateJson state_read
        [\<lparr>habitId_s = ''id-1'', name_s = ''Read'', completedLast7Days = 1,
          targetPerWeek = 7, completionRate = 1 / 7\<rparr>]) \<and> st2 = Some state_read"
    using getState_idempotent_same_clock [OF _ _ a b _ _ s2]
    by (simp add: get_request_def env_ok_def json_response_def)
  with a b c2 show ?thesis by (simp add: env_ok_def)
qed

text \<open>
  Claim C8 as the specification words it fails: the stats depend on the clock. On a
  state with one log stamped 0, a call exactly seven days later counts the log and leaves
  the storage as it was; the next call, one millisecond later and with nothing changed in
  between, does not count it, so the two responses differ.
\<close>

theorem getState_stats_change_with_clock:
  "fetch env_week (get_request ''/api/state'') (Some state_read) =
     (json_response (StateJson state_read
        [\<lparr>habitId_s = ''id-1'', name_s = ''Read'', completedLast7Days = 1,
          targetPerWeek = 7, completionRate = 1 / 7\<rparr>]), Some state_read, []) \<and>
   fetch env_week_later (get_request ''/api/state'') (Some state_read) =
     (json_response (StateJson state_read
        [\<lparr>habitId_s = ''id-1'', name_s = ''Read'', completedLast7Days = 0,
          targetPerWeek = 7, completionRate = 0\<rparr>]), Some state_read, []) \<and>
   fst (fetch env_week_later (get_request ''/api/state'') (Some state_read)) \<noteq>
   fst (fetch env_week (get_request ''/api/state'') (Some state_read))"
  by (simp add: example_defs model_defs)

end
